theory Spec2Isabelle
  imports Main "HOL-Library.Word"
begin

section \<open>The koordlet resource manager: eviction pipeline and NodeSLO store\<close>

text \<open>
  A shallow embedding of package \<open>resmanager\<close> (file \<open>resmanager.go\<close>) together with the
  API types of \<open>apis/slo/v1alpha1/nodeslo_types.go\<close>. Pointers are options (\<open>None\<close> is
  \<open>nil\<close>), a nil dereference is the value \<open>Inl NilPointerDereference\<close>, and every call
  to an external collaborator (the pod eviction API, the event recorder, the metrics and
  audit sinks, klog, the container runtime) is appended to a trace held in the state, so
  that "no API call" and "no event" are statements about those traces.
\<close>

subsection \<open>Kubernetes objects used by the eviction pipeline\<close>

record ContainerStatus =
  cs_Name :: string
  cs_ContainerID :: string
  cs_State_Running :: bool  \<comment> \<open>\<open>State.Running != nil\<close>\<close>

record PodStatus =
  InitContainerStatuses :: "ContainerStatus list"
  ContainerStatuses :: "ContainerStatus list"

record Container =
  container_Name :: string

record Pod =
  pod_UID :: string
  pod_Name :: string
  pod_Namespace :: string
  pod_Spec_Containers :: "Container list"
  pod_Status :: PodStatus

record Node =
  node_Name :: string

text \<open>
  Errors of the cluster API. \<open>errors.IsNotFound\<close> of apimachinery holds exactly for a
  status error whose reason is \<open>NotFound\<close>.
\<close>

datatype StatusReason =
  StatusReasonNotFound | StatusReasonForbidden | StatusReasonTooManyRequests
  | StatusReasonInternalError | StatusReasonUnknown

datatype error = StatusError StatusReason | OtherError string

fun IsNotFound :: "error \<Rightarrow> bool" where
  "IsNotFound (StatusError StatusReasonNotFound) = True"
| "IsNotFound _ = False"

datatype EventType = EventTypeNormal | EventTypeWarning

record Event =
  ev_object :: Node
  ev_type :: EventType
  ev_reason :: string
  ev_message :: string

definition evictPodSuccess :: string where
  "evictPodSuccess = ''evictPodSuccess''"

definition evictPodFail :: string where
  "evictPodFail = ''evictPodFail''"

datatype klog_level = Infof | InfoV nat | Warningf | Errorf

subsection \<open>The expiring cache\<close>

text \<open>
  Modelled from the spec: the type \<open>expireCache.Cache\<close> of \<open>pkg/tools/cache\<close> is not among
  the sources. The spec (4.1) describes it as a key-value store with a per-entry TTL:
  \<open>set\<close> inserts or refreshes an entry with the cache's default TTL and returns an error
  only if the cache has been shut down; \<open>get\<close> is a lookup with no side effects; an
  expired entry is treated as absent. An item is kept with its expiration time.
\<close>

record Cache =
  cache_items :: "string \<rightharpoonup> (string \<times> nat)"
  cache_defaultExpiration :: nat
  cache_stopped :: bool

definition Get :: "Cache \<Rightarrow> nat \<Rightarrow> string \<Rightarrow> string option" where
  "Get c now key =
     (case cache_items c key of
        None \<Rightarrow> None
      | Some (v, expirationTime) \<Rightarrow> if expirationTime \<le> now then None else Some v)"

definition SetDefault :: "Cache \<Rightarrow> nat \<Rightarrow> string \<Rightarrow> string \<Rightarrow> error option \<times> Cache" where
  "SetDefault c now key v =
     (if cache_stopped c then (Some (OtherError ''cache is stopped''), c)
      else (None, c\<lparr>cache_items := (cache_items c)(key \<mapsto> (v, now + cache_defaultExpiration c))\<rparr>))"

subsection \<open>The NodeSLO API types\<close>

type_synonym int64 = "64 word"

record MemoryQoS =
  mq_MinLimitPercent :: "int64 option"
  mq_LowLimitPercent :: "int64 option"
  mq_ThrottlingPercent :: "int64 option"
  mq_WmarkRatio :: "int64 option"
  mq_WmarkScalePermill :: "int64 option"
  mq_WmarkMinAdj :: "int64 option"
  mq_PriorityEnable :: "int64 option"
  mq_Priority :: "int64 option"
  mq_OomKillGroup :: "int64 option"

record MemoryQoSCfg =
  mqc_Enable :: "bool option"
  mqc_MemoryQoS :: MemoryQoS

record ResctrlQoS =
  rc_CATRangeStartPercent :: "int64 option"
  rc_CATRangeEndPercent :: "int64 option"
  rc_MBAPercent :: "int64 option"

record ResctrlQoSCfg =
  rcc_Enable :: "bool option"
  rcc_ResctrlQoS :: ResctrlQoS

record ResourceQoS =
  rq_MemoryQoS :: "MemoryQoSCfg option"
  rq_ResctrlQoS :: "ResctrlQoSCfg option"

record ResourceQoSStrategy =
  qos_LSR :: "ResourceQoS option"
  qos_LS :: "ResourceQoS option"
  qos_BE :: "ResourceQoS option"
  qos_System :: "ResourceQoS option"
  qos_CgroupRoot :: "ResourceQoS option"

record ResourceThresholdStrategy =
  Enable :: "bool option"
  CPUSuppressThresholdPercent :: "int64 option"
  CPUSuppressPolicy :: string
  MemoryEvictThresholdPercent :: "int64 option"
  MemoryEvictLowerPercent :: "int64 option"

record CPUBurstConfig =
  cb_Policy :: string
  cb_CPUBurstPercent :: "int64 option"
  cb_CFSQuotaBurstPercent :: "int64 option"
  cb_CFSQuotaBurstPeriodSeconds :: "int64 option"

record CPUBurstStrategy =
  cbs_CPUBurstConfig :: CPUBurstConfig
  cbs_SharePoolThresholdPercent :: "int64 option"

record NodeSLOSpec =
  ResourceUsedThresholdWithBE :: "ResourceThresholdStrategy option"
  spec_ResourceQoSStrategy :: "ResourceQoSStrategy option"
  spec_CPUBurstStrategy :: "CPUBurstStrategy option"

text \<open>\<open>NodeSLOStatus\<close> is the empty struct.\<close>

type_synonym NodeSLOStatus = unit

text \<open>
  \<open>metav1.TypeMeta\<close> and \<open>metav1.ObjectMeta\<close> belong to apimachinery; the identity fields
  of the object metadata are kept.
\<close>

record TypeMeta =
  tm_Kind :: string
  tm_APIVersion :: string

record ObjectMeta =
  om_Name :: string
  om_Namespace :: string
  om_UID :: string
  om_ResourceVersion :: string
  om_Generation :: int64
  om_Labels :: "(string \<times> string) list"
  om_Annotations :: "(string \<times> string) list"

record NodeSLO =
  slo_TypeMeta :: TypeMeta
  slo_ObjectMeta :: ObjectMeta
  Spec :: NodeSLOSpec
  Status :: NodeSLOStatus

subsection \<open>The resource manager's state\<close>

text \<open>
  The fields \<open>podsEvicted\<close> and \<open>nodeSLO\<close> are those of the struct \<open>resmanager\<close>. The
  collaborators held by the struct are represented by what the code does with them:
  \<open>kubeClient\<close> answers an \<open>EvictV1\<close> request (given the requests issued before, the
  namespace and the name of the eviction) with \<open>None\<close> for \<open>err == nil\<close> or with an error,
  and \<open>evict_calls\<close> lists the requests issued; \<open>events\<close> lists the calls of
  \<open>eventRecorder.Eventf\<close>, \<open>pod_evictions\<close> those of \<open>metrics.RecordPodEviction\<close>,
  \<open>audit_log\<close> those of the audit builder (namespace, name, reason, message) and \<open>klog\<close> the
  log calls (level and format string). \<open>clock\<close> is the reading of \<open>time.Now()\<close> used by
  the cache.
\<close>

record resmanager =
  podsEvicted :: Cache
  nodeSLO :: "NodeSLO option"
  kubeClient :: "(string \<times> string) list \<Rightarrow> string \<Rightarrow> string \<Rightarrow> error option"
  evict_calls :: "(string \<times> string) list"
  events :: "Event list"
  pod_evictions :: "string list"
  audit_log :: "(string \<times> string \<times> string \<times> string) list"
  klog :: "(klog_level \<times> string) list"
  clock :: nat

subsection \<open>Eviction\<close>

text \<open>
  \<open>evictPod\<close>: the audit record, the \<open>EvictV1\<close> request, then one of three branches:
  no error (success event, metric, log, true), an error that is not not-found (failure
  event, log, false), and the fall-through \<open>return true\<close> for not-found.
\<close>

definition evictPod :: "resmanager \<Rightarrow> Pod \<Rightarrow> Node \<Rightarrow> string \<Rightarrow> string \<Rightarrow> bool \<times> resmanager" where
  "evictPod r evictPod' node reason message =
     (let podEvictMessage =
            ''evict Pod:'' @ pod_Name evictPod' @ '', reason: '' @ reason @ '', message: '' @ message;
          r1 = r\<lparr>audit_log := audit_log r @ [(pod_Namespace evictPod', pod_Name evictPod', reason, message)]\<rparr>;
          err = kubeClient r1 (evict_calls r1) (pod_Namespace evictPod') (pod_Name evictPod');
          r2 = r1\<lparr>evict_calls := evict_calls r1 @ [(pod_Namespace evictPod', pod_Name evictPod')]\<rparr>
      in case err of
           None \<Rightarrow>
             (True,
              r2\<lparr>events := events r2 @
                     [\<lparr>ev_object = node, ev_type = EventTypeWarning,
                       ev_reason = evictPodSuccess, ev_message = podEvictMessage\<rparr>],
                 pod_evictions := pod_evictions r2 @ [reason],
                 klog := klog r2 @ [(Infof, ''evict pod %v/%v success, reason: %v'')]\<rparr>)
         | Some e \<Rightarrow>
             if \<not> IsNotFound e then
               (False,
                r2\<lparr>events := events r2 @
                       [\<lparr>ev_object = node, ev_type = EventTypeWarning,
                         ev_reason = evictPodFail, ev_message = podEvictMessage\<rparr>],
                   klog := klog r2 @ [(Errorf, ''evict pod %v/%v failed, reason: %v, error: %v'')]\<rparr>)
             else (True, r2))"

text \<open>
  \<open>evictPodIfNotEvicted\<close>: a hit in \<open>podsEvicted\<close> returns after a verbosity-5 log line;
  otherwise the pod is evicted and, when \<open>evictPod\<close> reports success, its UID is stored
  (the error of \<open>SetDefault\<close> is discarded).
\<close>

definition evictPodIfNotEvicted :: "resmanager \<Rightarrow> Pod \<Rightarrow> Node \<Rightarrow> string \<Rightarrow> string \<Rightarrow> resmanager" where
  "evictPodIfNotEvicted r evictPod' node reason message =
     (case Get (podsEvicted r) (clock r) (pod_UID evictPod') of
        Some _ \<Rightarrow> r\<lparr>klog := klog r @ [(InfoV 5, ''Pod has been evicted! podID: %v, evict reason: %s'')]\<rparr>
      | None \<Rightarrow>
          (let (success, r') = evictPod r evictPod' node reason message
           in if success then
                r'\<lparr>podsEvicted :=
                     snd (SetDefault (podsEvicted r') (clock r') (pod_UID evictPod') (pod_UID evictPod'))\<rparr>
              else r'))"

text \<open>\<open>evictPodsIfNotEvicted\<close>: the range loop over the pods.\<close>

fun evictPodsIfNotEvicted :: "resmanager \<Rightarrow> Pod list \<Rightarrow> Node \<Rightarrow> string \<Rightarrow> string \<Rightarrow> resmanager" where
  "evictPodsIfNotEvicted r [] node reason message = r"
| "evictPodsIfNotEvicted r (evictPod' # evictPods) node reason message =
     evictPodsIfNotEvicted (evictPodIfNotEvicted r evictPod' node reason message) evictPods node reason message"

subsection \<open>Stopping the containers of a pod\<close>

text \<open>
  \<open>killContainers\<close> uses \<open>util.FindContainerIdAndStatusByName\<close>, \<open>util.ParseContainerId\<close>,
  \<open>runtime.GetRuntimeHandler\<close> and the handler's \<open>StopContainer\<close>, none of which is among
  the sources: they are parameters, with the result tuples the call sites destructure.
  A runtime handler is identified by a name; \<open>StopContainer\<close> also sees the stop requests
  issued before. The function's effects are the stop requests and the log calls.
\<close>

record runtime_env =
  FindContainerIdAndStatusByName :: "PodStatus \<Rightarrow> string \<Rightarrow> string \<times> ContainerStatus option \<times> error option"
  ParseContainerId :: "string \<Rightarrow> string \<times> string \<times> error option"
  GetRuntimeHandler :: "string \<Rightarrow> string option \<times> error option"
  StopContainer :: "string \<Rightarrow> (string \<times> string \<times> int64) list \<Rightarrow> string \<Rightarrow> int64 \<Rightarrow> error option"

record runtime_trace =
  stop_calls :: "(string \<times> string \<times> int64) list"
  rt_klog :: "(klog_level \<times> string) list"

text \<open>
  The body of the range loop over \<open>pod.Spec.Containers\<close>: a \<open>return\<close> of the source ends
  the recursion, a \<open>continue\<close> or the end of the body goes on with the remaining containers.
\<close>

fun killContainers_loop :: "runtime_env \<Rightarrow> Pod \<Rightarrow> string \<Rightarrow> Container list \<Rightarrow> runtime_trace \<Rightarrow> runtime_trace" where
  "killContainers_loop env pod message [] t = t"
| "killContainers_loop env pod message (container # containers) t =
     (case FindContainerIdAndStatusByName env (pod_Status pod) (container_Name container) of
        (containerID, containerStatus, err) \<Rightarrow>
          if err \<noteq> None then
            t\<lparr>rt_klog := rt_klog t @ [(Errorf, ''failed to find container id and status, error: %v'')]\<rparr>
          else
            (case containerStatus of
               None \<Rightarrow> t
             | Some status \<Rightarrow>
                 if \<not> cs_State_Running status then t
                 else if containerID \<noteq> [] then
                   (case ParseContainerId env (cs_ContainerID status) of
                      (runtimeType, _, _) \<Rightarrow>
                        (case GetRuntimeHandler env runtimeType of
                           (runtimeHandler, err') \<Rightarrow>
                             if err' \<noteq> None \<or> runtimeHandler = None then
                               killContainers_loop env pod message containers
                                 (t\<lparr>rt_klog := rt_klog t @
                                     [(Errorf, ''%s, kill container(%s) error! GetRuntimeHandler fail! error: %v'')]\<rparr>)
                             else
                               (let err'' = StopContainer env (the runtimeHandler) (stop_calls t) containerID 0;
                                    t' = t\<lparr>stop_calls := stop_calls t @ [(the runtimeHandler, containerID, 0)]\<rparr>
                                in killContainers_loop env pod message containers
                                     (if err'' \<noteq> None then
                                        t'\<lparr>rt_klog := rt_klog t' @ [(Errorf, ''%s, stop container error! error: %v'')]\<rparr>
                                      else t'))))
                 else
                   killContainers_loop env pod message containers
                     (t\<lparr>rt_klog := rt_klog t @
                         [(Warningf, ''%s, get container ID failed, pod %s/%s containerName %s status: %v'')]\<rparr>)))"

definition killContainers :: "runtime_env \<Rightarrow> Pod \<Rightarrow> string \<Rightarrow> runtime_trace" where
  "killContainers env pod message =
     killContainers_loop env pod message (pod_Spec_Containers pod) \<lparr>stop_calls = [], rt_klog = []\<rparr>"

subsection \<open>The stored NodeSLO\<close>

datatype panic = NilPointerDereference

text \<open>
  \<open>mergeNodeSLOSpec\<close> calls \<open>util.DefaultNodeSLOSpecConfig\<close> and four merge helpers of the
  package that are not among the sources; they are parameters.
  \<open>mergeNoneResourceQoSIfDisabled\<close> receives a pointer and returns nothing, so it can only
  rewrite the strategy the pointer refers to: it is a function on that strategy, and is
  taken to leave a nil pointer alone.
\<close>

record merge_helpers =
  DefaultNodeSLOSpecConfig :: NodeSLOSpec
  mergeSLOSpecResourceUsedThresholdWithBE ::
    "ResourceThresholdStrategy option \<Rightarrow> ResourceThresholdStrategy option \<Rightarrow> ResourceThresholdStrategy option"
  mergeSLOSpecResourceQoSStrategy ::
    "ResourceQoSStrategy option \<Rightarrow> ResourceQoSStrategy option \<Rightarrow> ResourceQoSStrategy option"
  mergeNoneResourceQoSIfDisabled :: "ResourceQoSStrategy \<Rightarrow> ResourceQoSStrategy"
  mergeSLOSpecCPUBurstStrategy ::
    "CPUBurstStrategy option \<Rightarrow> CPUBurstStrategy option \<Rightarrow> CPUBurstStrategy option"

definition mergeNodeSLOSpec :: "merge_helpers \<Rightarrow> resmanager \<Rightarrow> NodeSLO option \<Rightarrow> resmanager" where
  "mergeNodeSLOSpec h r nodeSLO' =
     (case (nodeSLO r, nodeSLO') of
        (Some stored, Some new) \<Rightarrow>
          (let mergedResourceUsedThresholdWithBESpec =
                 mergeSLOSpecResourceUsedThresholdWithBE h
                   (ResourceUsedThresholdWithBE (DefaultNodeSLOSpecConfig h))
                   (ResourceUsedThresholdWithBE (Spec new));
               s1 = (if mergedResourceUsedThresholdWithBESpec \<noteq> None
                     then (Spec stored)\<lparr>ResourceUsedThresholdWithBE := mergedResourceUsedThresholdWithBESpec\<rparr>
                     else Spec stored);
               mergedResourceQoSStrategySpec =
                 map_option (mergeNoneResourceQoSIfDisabled h)
                   (mergeSLOSpecResourceQoSStrategy h
                      (spec_ResourceQoSStrategy (DefaultNodeSLOSpecConfig h))
                      (spec_ResourceQoSStrategy (Spec new)));
               s2 = (if mergedResourceQoSStrategySpec \<noteq> None
                     then s1\<lparr>spec_ResourceQoSStrategy := mergedResourceQoSStrategySpec\<rparr>
                     else s1);
               mergedCPUBurstStrategySpec =
                 mergeSLOSpecCPUBurstStrategy h
                   (spec_CPUBurstStrategy (DefaultNodeSLOSpecConfig h))
                   (spec_CPUBurstStrategy (Spec new));
               s3 = (if mergedCPUBurstStrategySpec \<noteq> None
                     then s2\<lparr>spec_CPUBurstStrategy := mergedCPUBurstStrategySpec\<rparr>
                     else s2)
           in r\<lparr>nodeSLO := Some (stored\<lparr>Spec := s3\<rparr>)\<rparr>)
      | _ \<Rightarrow> r\<lparr>klog := klog r @ [(Errorf, ''failed to merge with nil nodeSLO, old: %v, new: %v'')]\<rparr>)"

text \<open>
  \<open>createNodeSLO\<close>: \<open>DeepCopy\<close> of a nil pointer is nil, and the assignment to
  \<open>r.nodeSLO.Spec\<close> that follows dereferences it.
\<close>

definition createNodeSLO :: "merge_helpers \<Rightarrow> resmanager \<Rightarrow> NodeSLO option \<Rightarrow> panic + resmanager" where
  "createNodeSLO h r nodeSLO' =
     (case nodeSLO' of
        None \<Rightarrow> Inl NilPointerDereference
      | Some new \<Rightarrow>
          (let r1 = r\<lparr>nodeSLO := Some new\<rparr>;
               r2 = r1\<lparr>nodeSLO := Some (new\<lparr>Spec := Spec new\<rparr>)\<rparr>;
               r3 = mergeNodeSLOSpec h r2 nodeSLO'
           in Inr (r3\<lparr>klog := klog r3 @ [(Infof, ''update nodeSLO content: old %s, new %s'')]\<rparr>)))"

definition getNodeSLOCopy :: "resmanager \<Rightarrow> NodeSLO option" where
  "getNodeSLOCopy r = (case nodeSLO r of None \<Rightarrow> None | Some stored \<Rightarrow> Some stored)"

text \<open>
  \<open>updateNodeSLOSpec\<close>: the assignment \<open>r.nodeSLO.Spec = nodeSLO.Spec\<close> dereferences both
  the stored and the incoming pointer.
\<close>

definition updateNodeSLOSpec :: "merge_helpers \<Rightarrow> resmanager \<Rightarrow> NodeSLO option \<Rightarrow> panic + resmanager" where
  "updateNodeSLOSpec h r nodeSLO' =
     (case nodeSLO r of
        None \<Rightarrow> Inl NilPointerDereference
      | Some stored \<Rightarrow>
          (case nodeSLO' of
             None \<Rightarrow> Inl NilPointerDereference
           | Some new \<Rightarrow>
               (let r1 = r\<lparr>nodeSLO := Some (stored\<lparr>Spec := Spec new\<rparr>)\<rparr>;
                    r2 = mergeNodeSLOSpec h r1 nodeSLO'
                in Inr (r2\<lparr>klog := klog r2 @ [(Infof, ''update nodeSLO content: old %s, new %s'')]\<rparr>))))"

definition hasSynced :: "resmanager \<Rightarrow> bool" where
  "hasSynced r =
     (case nodeSLO r of
        None \<Rightarrow> False
      | Some stored \<Rightarrow> ResourceUsedThresholdWithBE (Spec stored) \<noteq> None)"

subsection \<open>Feature configuration\<close>

text \<open>
  The feature names are constants of \<open>pkg/features\<close>, which is not among the sources; a
  \<open>featuregate.Feature\<close> is a string, and each constant is taken to be its own name.
  Nothing below depends on the two strings.
\<close>

definition BECPUSuppress :: string where
  "BECPUSuppress = ''BECPUSuppress''"

definition BEMemoryEvict :: string where
  "BEMemoryEvict = ''BEMemoryEvict''"

text \<open>The zero value \<open>NodeSLOSpec{}\<close>: three nil pointers.\<close>

definition NodeSLOSpec_zero :: NodeSLOSpec where
  "NodeSLOSpec_zero =
     \<lparr>ResourceUsedThresholdWithBE = None, spec_ResourceQoSStrategy = None, spec_CPUBurstStrategy = None\<rparr>"

definition isFeatureDisabled :: "NodeSLO option \<Rightarrow> string \<Rightarrow> bool \<times> error option" where
  "isFeatureDisabled nodeSLO' feature =
     (case nodeSLO' of
        None \<Rightarrow> (True, Some (OtherError ''cannot parse feature config for invalid nodeSLO %v''))
      | Some slo \<Rightarrow>
          if Spec slo = NodeSLOSpec_zero then
            (True, Some (OtherError ''cannot parse feature config for invalid nodeSLO %v''))
          else
            (let spec = Spec slo
             in if feature = BECPUSuppress \<or> feature = BEMemoryEvict then
                  (case ResourceUsedThresholdWithBE spec of
                     None \<Rightarrow> (True, Some (OtherError ''cannot parse feature config for invalid nodeSLO %v''))
                   | Some threshold \<Rightarrow>
                       (case Enable threshold of
                          None \<Rightarrow> (True, Some (OtherError ''cannot parse feature config for invalid nodeSLO %v''))
                        | Some enable \<Rightarrow> (\<not> enable, None)))
                else (True, Some (OtherError ''cannot parse feature config for unsupported feature %s''))))"

subsection \<open>Concrete inputs\<close>

text \<open>
  Objects on which the functions above are evaluated below: an empty running cache with a
  TTL of 120, a cache holding one entry, pods, a node, a manager whose eviction API
  answers by pod name, NodeSLO objects, an instance of the merge helpers that keeps an
  incoming block and otherwise takes the default, and an instance of the container
  runtime whose status lookup returns the first status entry with the container's name
  and a non-empty container ID.
\<close>

definition demo_cache :: Cache where
  "demo_cache = \<lparr>cache_items = Map.empty, cache_defaultExpiration = 120, cache_stopped = False\<rparr>"

definition demo_pod :: "string \<Rightarrow> string \<Rightarrow> Pod" where
  "demo_pod uid name =
     \<lparr>pod_UID = uid, pod_Name = name, pod_Namespace = ''default'', pod_Spec_Containers = [],
      pod_Status = \<lparr>InitContainerStatuses = [], ContainerStatuses = []\<rparr>\<rparr>"

definition demo_node :: Node where
  "demo_node = \<lparr>node_Name = ''node-1''\<rparr>"

definition demo_manager :: "(string \<Rightarrow> error option) \<Rightarrow> Cache \<Rightarrow> resmanager" where
  "demo_manager api c =
     \<lparr>podsEvicted = c, nodeSLO = None, kubeClient = (\<lambda>_ _ name. api name), evict_calls = [],
      events = [], pod_evictions = [], audit_log = [], klog = [], clock = 7\<rparr>"

definition api_A_fails :: "string \<Rightarrow> error option" where
  "api_A_fails name = (if name = ''A'' then Some (StatusError StatusReasonInternalError) else None)"

definition api_always :: "error option \<Rightarrow> string \<Rightarrow> error option" where
  "api_always e name = e"

definition demo_cache_with :: "string \<Rightarrow> nat \<Rightarrow> Cache" where
  "demo_cache_with uid expirationTime =
     \<lparr>cache_items = [uid \<mapsto> (uid, expirationTime)], cache_defaultExpiration = 120,
      cache_stopped = False\<rparr>"

definition demo_threshold :: "bool option \<Rightarrow> ResourceThresholdStrategy" where
  "demo_threshold enable =
     \<lparr>Enable = enable, CPUSuppressThresholdPercent = Some 65, CPUSuppressPolicy = ''cpuset'',
      MemoryEvictThresholdPercent = Some 70, MemoryEvictLowerPercent = None\<rparr>"

definition demo_slo :: "string \<Rightarrow> NodeSLOSpec \<Rightarrow> NodeSLO" where
  "demo_slo version spec =
     \<lparr>slo_TypeMeta = \<lparr>tm_Kind = ''NodeSLO'', tm_APIVersion = ''slo.koordinator.sh/v1alpha1''\<rparr>,
      slo_ObjectMeta = \<lparr>om_Name = ''node-1'', om_Namespace = [], om_UID = ''slo-uid'',
                        om_ResourceVersion = version, om_Generation = 1, om_Labels = [],
                        om_Annotations = []\<rparr>,
      Spec = spec, Status = ()\<rparr>"

definition or_default :: "'a option \<Rightarrow> 'a option \<Rightarrow> 'a option" where
  "or_default d new = (case new of None \<Rightarrow> d | Some x \<Rightarrow> Some x)"

definition demo_helpers :: merge_helpers where
  "demo_helpers =
     \<lparr>DefaultNodeSLOSpecConfig =
        \<lparr>ResourceUsedThresholdWithBE = Some (demo_threshold (Some True)),
         spec_ResourceQoSStrategy = None, spec_CPUBurstStrategy = None\<rparr>,
      mergeSLOSpecResourceUsedThresholdWithBE = or_default,
      mergeSLOSpecResourceQoSStrategy = or_default,
      mergeNoneResourceQoSIfDisabled = (\<lambda>q. q),
      mergeSLOSpecCPUBurstStrategy = or_default\<rparr>"

definition lookup_status :: "PodStatus \<Rightarrow> string \<Rightarrow> string \<times> ContainerStatus option \<times> error option" where
  "lookup_status status name =
     (case find (\<lambda>s. cs_Name s = name \<and> cs_ContainerID s \<noteq> [])
             (InitContainerStatuses status @ ContainerStatuses status) of
        None \<Rightarrow> ([], None, Some (OtherError ''unable to find ID for container''))
      | Some s \<Rightarrow> (drop 13 (cs_ContainerID s), Some s, None))"

definition demo_env :: "string list \<Rightarrow> runtime_env" where
  "demo_env handlers =
     \<lparr>FindContainerIdAndStatusByName = lookup_status,
      ParseContainerId = (\<lambda>s. (take 10 s, drop 13 s, None)),
      GetRuntimeHandler =
        (\<lambda>runtimeType. if runtimeType \<in> set handlers then (Some runtimeType, None)
                        else (None, Some (OtherError ''runtime handler not found''))),
      StopContainer = (\<lambda>handler before containerID timeout. None)\<rparr>"

definition running :: "string \<Rightarrow> string \<Rightarrow> ContainerStatus" where
  "running name containerID =
     \<lparr>cs_Name = name, cs_ContainerID = containerID, cs_State_Running = True\<rparr>"

definition demo_containers_pod :: "string list \<Rightarrow> ContainerStatus list \<Rightarrow> Pod" where
  "demo_containers_pod names statuses =
     \<lparr>pod_UID = ''uid-a'', pod_Name = ''A'', pod_Namespace = ''default'',
      pod_Spec_Containers = map (\<lambda>n. \<lparr>container_Name = n\<rparr>) names,
      pod_Status = \<lparr>InitContainerStatuses = [], ContainerStatuses = statuses\<rparr>\<rparr>"

section \<open>Properties of the eviction pipeline\<close>

subsection \<open>Auxiliary facts\<close>

text \<open>
  An entry found after \<open>SetDefault\<close> was there before or is the one just stored.
\<close>

lemma Get_SetDefault:
  "Get (snd (SetDefault c now k v)) now k' = Some x \<Longrightarrow> Get c now k' = Some x \<or> k' = k"
  by (auto simp: Get_def SetDefault_def split: if_splits option.splits)

text \<open>
  \<open>evictPod\<close> leaves the clock and the cache alone and issues exactly one eviction request.
\<close>

lemma evictPod_clock: "clock (snd (evictPod r p node reason message)) = clock r"
  by (simp add: evictPod_def Let_def split: option.splits)

lemma evictPod_podsEvicted: "podsEvicted (snd (evictPod r p node reason message)) = podsEvicted r"
  by (simp add: evictPod_def Let_def split: option.splits)

lemma evictPod_evict_calls:
  "evict_calls (snd (evictPod r p node reason message)) = evict_calls r @ [(pod_Namespace p, pod_Name p)]"
  by (simp add: evictPod_def Let_def split: option.splits)

text \<open>
  \<open>evictPodIfNotEvicted\<close> issues a request exactly when the cache has no live entry for
  the pod's UID, and adds a live entry for no other UID than the pod's.
\<close>

lemma evictPodIfNotEvicted_clock: "clock (evictPodIfNotEvicted r p node reason message) = clock r"
  using evictPod_clock [of r p node reason message]
  by (cases "evictPod r p node reason message")
     (auto simp add: evictPodIfNotEvicted_def split: option.splits)

lemma evictPodIfNotEvicted_calls:
  "evict_calls (evictPodIfNotEvicted r p node reason message) =
     evict_calls r @ (if Get (podsEvicted r) (clock r) (pod_UID p) = None
                      then [(pod_Namespace p, pod_Name p)] else [])"
  using evictPod_evict_calls [of r p node reason message]
  by (cases "evictPod r p node reason message")
     (auto simp add: evictPodIfNotEvicted_def split: option.splits)

lemma evictPodIfNotEvicted_Get:
  assumes "Get (podsEvicted (evictPodIfNotEvicted r p node reason message)) (clock r) u = Some x"
  shows "Get (podsEvicted r) (clock r) u = Some x \<or> u = pod_UID p"
  using assms evictPod_podsEvicted [of r p node reason message] evictPod_clock [of r p node reason message]
  by (cases "evictPod r p node reason message")
     (auto simp add: evictPodIfNotEvicted_def split: option.splits if_splits dest: Get_SetDefault)

text \<open>
  The batch as a left fold, and the requests it issues for pods with pairwise different
  UIDs none of which has a live entry: by induction on the list, the state generalised.
\<close>

lemma evictPodsIfNotEvicted_foldl:
  "evictPodsIfNotEvicted r pods node reason message =
     foldl (\<lambda>r p. evictPodIfNotEvicted r p node reason message) r pods"
  by (induction pods arbitrary: r) simp_all

lemma evictPodsIfNotEvicted_calls:
  "distinct (map pod_UID pods) \<Longrightarrow>
   \<forall>p \<in> set pods. Get (podsEvicted r) (clock r) (pod_UID p) = None \<Longrightarrow>
   evict_calls (evictPodsIfNotEvicted r pods node reason message) =
     evict_calls r @ map (\<lambda>p. (pod_Namespace p, pod_Name p)) pods"
proof (induction pods arbitrary: r)
  case Nil
  show ?case by simp
next
  case (Cons p pods)
  let ?r = "evictPodIfNotEvicted r p node reason message"
  have fresh: "Get (podsEvicted ?r) (clock ?r) (pod_UID q) = None" if q: "q \<in> set pods" for q
  proof (rule ccontr)
    assume "Get (podsEvicted ?r) (clock ?r) (pod_UID q) \<noteq> None"
    then obtain x where "Get (podsEvicted ?r) (clock r) (pod_UID q) = Some x"
      by (auto simp: evictPodIfNotEvicted_clock)
    from evictPodIfNotEvicted_Get [OF this]
    have "Get (podsEvicted r) (clock r) (pod_UID q) = Some x \<or> pod_UID q = pod_UID p" .
    moreover have "Get (podsEvicted r) (clock r) (pod_UID q) = None"
      using Cons.prems(2) q by simp
    moreover have "pod_UID q \<noteq> pod_UID p"
    proof
      assume "pod_UID q = pod_UID p"
      then have "pod_UID p \<in> pod_UID ` set pods"
        using q by (metis imageI)
      then show False
        using Cons.prems(1) by simp
    qed
    ultimately show False by simp
  qed
  have "evict_calls (evictPodsIfNotEvicted ?r pods node reason message) =
        evict_calls ?r @ map (\<lambda>p. (pod_Namespace p, pod_Name p)) pods"
    using Cons.prems(1) fresh by (intro Cons.IH) auto
  moreover have "evict_calls ?r = evict_calls r @ [(pod_Namespace p, pod_Name p)]"
    using Cons.prems(2) by (simp add: evictPodIfNotEvicted_calls)
  ultimately show ?case by simp
qed

subsection \<open>Not-found is success, and is cached\<close>

text \<open>
  Claim C1, as amended. When the eviction request fails with a not-found error,
  \<open>evictPod\<close> falls through to \<open>return true\<close>, so \<open>evictPodIfNotEvicted\<close> takes its
  \<open>if success\<close> branch and calls \<open>SetDefault\<close>. For a pod without a live entry and a
  cache that has not been stopped: \<open>evictPod\<close> returns true both when the request fails
  with not-found and when it succeeds; whenever \<open>evictPod\<close> returns true the entry for the
  pod's UID IS stored, with the default TTL; and when \<open>evictPod\<close> returns false the cache
  is left as it was.
\<close>

theorem evictPodIfNotEvicted_not_found_inserts:
  assumes "Get (podsEvicted r) (clock r) (pod_UID p) = None"
    and "\<not> cache_stopped (podsEvicted r)"
  shows "(kubeClient r (evict_calls r) (pod_Namespace p) (pod_Name p) = Some e \<and> IsNotFound e
            \<longrightarrow> fst (evictPod r p node reason message))
     \<and> (kubeClient r (evict_calls r) (pod_Namespace p) (pod_Name p) = None
            \<longrightarrow> fst (evictPod r p node reason message))
     \<and> (fst (evictPod r p node reason message)
            \<longrightarrow> cache_items (podsEvicted (evictPodIfNotEvicted r p node reason message)) (pod_UID p)
                  = Some (pod_UID p, clock r + cache_defaultExpiration (podsEvicted r)))
     \<and> (\<not> fst (evictPod r p node reason message)
            \<longrightarrow> podsEvicted (evictPodIfNotEvicted r p node reason message) = podsEvicted r)"
proof (intro conjI impI)
  assume "kubeClient r (evict_calls r) (pod_Namespace p) (pod_Name p) = Some e \<and> IsNotFound e"
  then show "fst (evictPod r p node reason message)"
    by (simp add: evictPod_def Let_def)
next
  assume "kubeClient r (evict_calls r) (pod_Namespace p) (pod_Name p) = None"
  then show "fst (evictPod r p node reason message)"
    by (simp add: evictPod_def Let_def)
next
  assume success: "fst (evictPod r p node reason message)"
  obtain r' where r': "evictPod r p node reason message = (True, r')"
    using success by (cases "evictPod r p node reason message") simp
  have "podsEvicted r' = podsEvicted r" and "clock r' = clock r"
    using evictPod_podsEvicted [of r p node reason message]
      evictPod_clock [of r p node reason message] r'
    by simp_all
  then show "cache_items (podsEvicted (evictPodIfNotEvicted r p node reason message)) (pod_UID p)
      = Some (pod_UID p, clock r + cache_defaultExpiration (podsEvicted r))"
    using assms r' by (simp add: evictPodIfNotEvicted_def SetDefault_def)
next
  assume failure: "\<not> fst (evictPod r p node reason message)"
  obtain r' where r': "evictPod r p node reason message = (False, r')"
    using failure by (cases "evictPod r p node reason message") simp
  have "podsEvicted r' = podsEvicted r"
    using evictPod_podsEvicted [of r p node reason message] r' by simp
  then show "podsEvicted (evictPodIfNotEvicted r p node reason message) = podsEvicted r"
    using assms r' by (simp add: evictPodIfNotEvicted_def)
qed

text \<open>
  The theorem on an empty cache, at a request answered with not-found, at one that
  succeeds and at one answered with Forbidden.
\<close>

theorem evictPodIfNotEvicted_not_found_inserts_witness:
  "Get demo_cache 7 ''uid-a'' = None
   \<and> \<not> cache_stopped demo_cache
   \<and> IsNotFound (StatusError StatusReasonNotFound)
   \<and> fst (evictPod (demo_manager (api_always (Some (StatusError StatusReasonNotFound))) demo_cache)
        (demo_pod ''uid-a'' ''A'') demo_node ''memory'' ''over threshold'')
   \<and> cache_items (podsEvicted (evictPodIfNotEvicted
              (demo_manager (api_always (Some (StatusError StatusReasonNotFound))) demo_cache)
              (demo_pod ''uid-a'' ''A'') demo_node ''memory'' ''over threshold'')) ''uid-a''
       = Some (''uid-a'', 127)
   \<and> fst (evictPod (demo_manager (api_always None) demo_cache)
        (demo_pod ''uid-a'' ''A'') demo_node ''memory'' ''over threshold'')
   \<and> cache_items (podsEvicted (evictPodIfNotEvicted
              (demo_manager (api_always None) demo_cache)
              (demo_pod ''uid-a'' ''A'') demo_node ''memory'' ''over threshold'')) ''uid-a''
       = Some (''uid-a'', 127)
   \<and> \<not> fst (evictPod (demo_manager (api_always (Some (StatusError StatusReasonForbidden))) demo_cache)
        (demo_pod ''uid-a'' ''A'') demo_node ''memory'' ''over threshold'')
   \<and> podsEvicted (evictPodIfNotEvicted
              (demo_manager (api_always (Some (StatusError StatusReasonForbidden))) demo_cache)
              (demo_pod ''uid-a'' ''A'') demo_node ''memory'' ''over threshold'') = demo_cache"
  using evictPodIfNotEvicted_not_found_inserts
    [of "demo_manager (api_always (Some (StatusError StatusReasonNotFound))) demo_cache"
        "demo_pod ''uid-a'' ''A''" "StatusError StatusReasonNotFound"
        demo_node "''memory''" "''over threshold''"]
    evictPodIfNotEvicted_not_found_inserts
    [of "demo_manager (api_always None) demo_cache"
        "demo_pod ''uid-a'' ''A''" "StatusError StatusReasonNotFound"
        demo_node "''memory''" "''over threshold''"]
    evictPodIfNotEvicted_not_found_inserts
    [of "demo_manager (api_always (Some (StatusError StatusReasonForbidden))) demo_cache"
        "demo_pod ''uid-a'' ''A''" "StatusError StatusReasonForbidden"
        demo_node "''memory''" "''over threshold''"]
  by (simp add: demo_manager_def demo_cache_def demo_pod_def api_always_def Get_def
      evictPod_def Let_def)

text \<open>
  The statement that the not-found path stores no entry fails on that input: the request
  is answered with not-found, the cache has no entry for the UID before the call and has
  one after it.
\<close>

theorem evictPodIfNotEvicted_not_found_no_entry_counterexample:
  "kubeClient (demo_manager (api_always (Some (StatusError StatusReasonNotFound))) demo_cache)
     [] ''default'' ''A'' = Some (StatusError StatusReasonNotFound)
   \<and> IsNotFound (StatusError StatusReasonNotFound)
   \<and> Get demo_cache 7 ''uid-a'' = None
   \<and> Get (podsEvicted (evictPodIfNotEvicted
              (demo_manager (api_always (Some (StatusError StatusReasonNotFound))) demo_cache)
              (demo_pod ''uid-a'' ''A'') demo_node ''memory'' ''over threshold'')) 7 ''uid-a''
       = Some ''uid-a''"
  by (simp add: demo_manager_def demo_cache_def demo_pod_def api_always_def Get_def SetDefault_def
      evictPodIfNotEvicted_def evictPod_def Let_def)

subsection \<open>A cached pod is left alone\<close>

text \<open>
  Claim C3. For a pod whose UID has a live entry in the cache, \<open>evictPodIfNotEvicted\<close>
  returns the state it was given apart from one verbosity-5 log line: no eviction request
  is issued, no event and no metric is recorded, no audit record is written and the cache
  is not written.
\<close>

theorem evictPodIfNotEvicted_cached_noop:
  assumes "Get (podsEvicted r) (clock r) (pod_UID p) = Some v"
  shows "evictPodIfNotEvicted r p node reason message =
           r\<lparr>klog := klog r @ [(InfoV 5, ''Pod has been evicted! podID: %v, evict reason: %s'')]\<rparr>
     \<and> evict_calls (evictPodIfNotEvicted r p node reason message) = evict_calls r
     \<and> events (evictPodIfNotEvicted r p node reason message) = events r
     \<and> pod_evictions (evictPodIfNotEvicted r p node reason message) = pod_evictions r
     \<and> audit_log (evictPodIfNotEvicted r p node reason message) = audit_log r
     \<and> podsEvicted (evictPodIfNotEvicted r p node reason message) = podsEvicted r"
  using assms by (simp add: evictPodIfNotEvicted_def)

text \<open>
  The theorem at a pod whose entry expires at time 100, read at time 7.
\<close>

theorem evictPodIfNotEvicted_cached_noop_witness:
  "Get (demo_cache_with ''uid-a'' 100) 7 ''uid-a'' = Some ''uid-a''
   \<and> evict_calls (evictPodIfNotEvicted (demo_manager (api_always None) (demo_cache_with ''uid-a'' 100))
        (demo_pod ''uid-a'' ''A'') demo_node ''memory'' ''over threshold'') = []
   \<and> events (evictPodIfNotEvicted (demo_manager (api_always None) (demo_cache_with ''uid-a'' 100))
        (demo_pod ''uid-a'' ''A'') demo_node ''memory'' ''over threshold'') = []
   \<and> pod_evictions (evictPodIfNotEvicted (demo_manager (api_always None) (demo_cache_with ''uid-a'' 100))
        (demo_pod ''uid-a'' ''A'') demo_node ''memory'' ''over threshold'') = []
   \<and> podsEvicted (evictPodIfNotEvicted (demo_manager (api_always None) (demo_cache_with ''uid-a'' 100))
        (demo_pod ''uid-a'' ''A'') demo_node ''memory'' ''over threshold'') = demo_cache_with ''uid-a'' 100"
  using evictPodIfNotEvicted_cached_noop
    [of "demo_manager (api_always None) (demo_cache_with ''uid-a'' 100)" "demo_pod ''uid-a'' ''A''"
        "''uid-a''" demo_node "''memory''" "''over threshold''"]
  by (simp add: demo_manager_def demo_cache_with_def demo_pod_def Get_def)

subsection \<open>A failed eviction is reported\<close>

text \<open>
  Claim C4. When the eviction request fails with an error that is not not-found,
  \<open>evictPod\<close> records the warning event \<open>evictPodFail\<close> on the node and returns false, and
  \<open>evictPodIfNotEvicted\<close> leaves the cache as it was; when it reaches \<open>evictPod\<close> (no
  live entry for the pod) the events it leaves are those of \<open>evictPod\<close>.
\<close>

theorem evictPod_failure_not_silent:
  assumes "kubeClient r (evict_calls r) (pod_Namespace p) (pod_Name p) = Some e"
    and "\<not> IsNotFound e"
  shows "fst (evictPod r p node reason message) = False
     \<and> events (snd (evictPod r p node reason message)) =
         events r @ [\<lparr>ev_object = node, ev_type = EventTypeWarning, ev_reason = evictPodFail,
                      ev_message = ''evict Pod:'' @ pod_Name p @ '', reason: '' @ reason
                                   @ '', message: '' @ message\<rparr>]
     \<and> podsEvicted (evictPodIfNotEvicted r p node reason message) = podsEvicted r
     \<and> (Get (podsEvicted r) (clock r) (pod_UID p) = None \<longrightarrow>
          events (evictPodIfNotEvicted r p node reason message) =
            events (snd (evictPod r p node reason message)))"
  using assms
  by (simp add: evictPodIfNotEvicted_def evictPod_def Let_def split: option.splits)

text \<open>
  The theorem at a request answered with Forbidden.
\<close>

theorem evictPod_failure_not_silent_witness:
  "\<not> IsNotFound (StatusError StatusReasonForbidden)
   \<and> fst (evictPod (demo_manager (api_always (Some (StatusError StatusReasonForbidden))) demo_cache)
        (demo_pod ''uid-a'' ''A'') demo_node ''memory'' ''over threshold'') = False
   \<and> events (evictPodIfNotEvicted (demo_manager (api_always (Some (StatusError StatusReasonForbidden))) demo_cache)
        (demo_pod ''uid-a'' ''A'') demo_node ''memory'' ''over threshold'') =
       [\<lparr>ev_object = demo_node, ev_type = EventTypeWarning, ev_reason = ''evictPodFail'',
         ev_message = ''evict Pod:A, reason: memory, message: over threshold''\<rparr>]
   \<and> podsEvicted (evictPodIfNotEvicted (demo_manager (api_always (Some (StatusError StatusReasonForbidden))) demo_cache)
        (demo_pod ''uid-a'' ''A'') demo_node ''memory'' ''over threshold'') = demo_cache"
  using evictPod_failure_not_silent
    [of "demo_manager (api_always (Some (StatusError StatusReasonForbidden))) demo_cache"
        "demo_pod ''uid-a'' ''A''" "StatusError StatusReasonForbidden"
        demo_node "''memory''" "''over threshold''"]
  by (simp add: demo_manager_def demo_cache_def demo_pod_def api_always_def Get_def evictPodFail_def)

subsection \<open>The batch attempts every pod\<close>

text \<open>
  Claim C5. \<open>evictPodsIfNotEvicted\<close> is the fold of \<open>evictPodIfNotEvicted\<close> over the
  list: the per-pod operation is applied to every pod, whatever the outcome for the pods
  before it. In particular, whatever the eviction API answers, pods with pairwise different
  UIDs and no live cache entry each receive one eviction request, in the order of the list.
\<close>

theorem evictPodsIfNotEvicted_attempts_every_pod:
  "evictPodsIfNotEvicted r pods node reason message =
     foldl (\<lambda>r' p. evictPodIfNotEvicted r' p node reason message) r pods
   \<and> (distinct (map pod_UID pods) \<and>
      (\<forall>p \<in> set pods. Get (podsEvicted r) (clock r) (pod_UID p) = None) \<longrightarrow>
      evict_calls (evictPodsIfNotEvicted r pods node reason message) =
        evict_calls r @ map (\<lambda>p. (pod_Namespace p, pod_Name p)) pods)"
  using evictPodsIfNotEvicted_foldl evictPodsIfNotEvicted_calls by blast

text \<open>
  The theorem at two pods A and B where the eviction of A fails with an internal error:
  B is still requested.
\<close>

theorem evictPodsIfNotEvicted_attempts_every_pod_witness:
  "api_A_fails ''A'' = Some (StatusError StatusReasonInternalError)
   \<and> \<not> IsNotFound (StatusError StatusReasonInternalError)
   \<and> distinct (map pod_UID [demo_pod ''uid-a'' ''A'', demo_pod ''uid-b'' ''B''])
   \<and> Get (podsEvicted (demo_manager api_A_fails demo_cache))
         (clock (demo_manager api_A_fails demo_cache)) (pod_UID (demo_pod ''uid-a'' ''A'')) = None
   \<and> Get (podsEvicted (demo_manager api_A_fails demo_cache))
         (clock (demo_manager api_A_fails demo_cache)) (pod_UID (demo_pod ''uid-b'' ''B'')) = None
   \<and> evict_calls (evictPodsIfNotEvicted (demo_manager api_A_fails demo_cache)
        [demo_pod ''uid-a'' ''A'', demo_pod ''uid-b'' ''B''] demo_node ''memory'' ''over threshold'')
      = [(''default'', ''A''), (''default'', ''B'')]"
  using evictPodsIfNotEvicted_attempts_every_pod
    [of "demo_manager api_A_fails demo_cache" "[demo_pod ''uid-a'' ''A'', demo_pod ''uid-b'' ''B'']"
        demo_node "''memory''" "''over threshold''"]
  by (simp add: demo_manager_def demo_cache_def demo_pod_def api_A_fails_def Get_def)

subsection \<open>What evictPod records\<close>

text \<open>
  Claim C10. By the answer to the eviction request: on success \<open>evictPod\<close> returns true
  and records the success event and the metric; on a not-found error it returns true and
  records neither an event nor a metric; on any other error it returns false and records
  the failure event and no metric.
\<close>

theorem evictPod_outcomes:
  "(case kubeClient r (evict_calls r) (pod_Namespace p) (pod_Name p) of
      None \<Rightarrow>
        fst (evictPod r p node reason message) = True
        \<and> events (snd (evictPod r p node reason message)) =
            events r @ [\<lparr>ev_object = node, ev_type = EventTypeWarning, ev_reason = evictPodSuccess,
                         ev_message = ''evict Pod:'' @ pod_Name p @ '', reason: '' @ reason
                                      @ '', message: '' @ message\<rparr>]
        \<and> pod_evictions (snd (evictPod r p node reason message)) = pod_evictions r @ [reason]
    | Some e \<Rightarrow>
        if IsNotFound e then
          fst (evictPod r p node reason message) = True
          \<and> events (snd (evictPod r p node reason message)) = events r
          \<and> pod_evictions (snd (evictPod r p node reason message)) = pod_evictions r
        else
          fst (evictPod r p node reason message) = False
          \<and> events (snd (evictPod r p node reason message)) =
              events r @ [\<lparr>ev_object = node, ev_type = EventTypeWarning, ev_reason = evictPodFail,
                           ev_message = ''evict Pod:'' @ pod_Name p @ '', reason: '' @ reason
                                        @ '', message: '' @ message\<rparr>]
          \<and> pod_evictions (snd (evictPod r p node reason message)) = pod_evictions r)"
  by (simp add: evictPod_def Let_def split: option.splits)

text \<open>
  The theorem at a request answered with not-found.
\<close>

theorem evictPod_outcomes_witness:
  "IsNotFound (StatusError StatusReasonNotFound)
   \<and> fst (evictPod (demo_manager (api_always (Some (StatusError StatusReasonNotFound))) demo_cache)
        (demo_pod ''uid-a'' ''A'') demo_node ''memory'' ''over threshold'') = True
   \<and> events (snd (evictPod (demo_manager (api_always (Some (StatusError StatusReasonNotFound))) demo_cache)
        (demo_pod ''uid-a'' ''A'') demo_node ''memory'' ''over threshold'')) = []
   \<and> pod_evictions (snd (evictPod (demo_manager (api_always (Some (StatusError StatusReasonNotFound))) demo_cache)
        (demo_pod ''uid-a'' ''A'') demo_node ''memory'' ''over threshold'')) = []"
  using evictPod_outcomes
    [of "demo_manager (api_always (Some (StatusError StatusReasonNotFound))) demo_cache"
        "demo_pod ''uid-a'' ''A''" demo_node "''memory''" "''over threshold''"]
  by (simp add: demo_manager_def demo_cache_def demo_pod_def api_always_def)

subsection \<open>Stopping containers\<close>

text \<open>
  When the status lookup fails for a container, the loop returns: no stop request is
  issued for that container or for any after it. When the runtime handler cannot be
  resolved, the loop continues with the remaining containers.
\<close>

lemma killContainers_loop_lookup_failure:
  assumes "FindContainerIdAndStatusByName env (pod_Status pod) (container_Name container) = (containerID, containerStatus, Some e)"
  shows "stop_calls (killContainers_loop env pod message (container # containers) t) = stop_calls t"
  using assms by simp

lemma killContainers_loop_handler_failure:
  assumes "FindContainerIdAndStatusByName env (pod_Status pod) (container_Name container) = (containerID, Some status, None)"
    and "cs_State_Running status" and "containerID \<noteq> []"
    and "GetRuntimeHandler env (fst (ParseContainerId env (cs_ContainerID status))) = (runtimeHandler, err)"
    and "err \<noteq> None \<or> runtimeHandler = None"
  shows "killContainers_loop env pod message (container # containers) t =
     killContainers_loop env pod message containers
       (t\<lparr>rt_klog := rt_klog t @ [(Errorf, ''%s, kill container(%s) error! GetRuntimeHandler fail! error: %v'')]\<rparr>)"
  using assms by (auto split: prod.splits)

text \<open>
  Claim C2. A pod with the containers sidecar and app, where only app has a status entry
  (running, with a container ID): the status lookup fails for sidecar and succeeds for
  app, and \<open>killContainers\<close> issues no stop request at all, although app comes after the
  failure. With the two containers in the other order, app is stopped.
\<close>

theorem killContainers_lookup_failure_skips_siblings:
  "snd (snd (FindContainerIdAndStatusByName (demo_env [''containerd''])
       (pod_Status (demo_containers_pod [''sidecar'', ''app''] [running ''app'' ''containerd://app-id'']))
       ''sidecar'')) = Some (OtherError ''unable to find ID for container'')
   \<and> FindContainerIdAndStatusByName (demo_env [''containerd''])
       (pod_Status (demo_containers_pod [''sidecar'', ''app''] [running ''app'' ''containerd://app-id'']))
       ''app'' = (''app-id'', Some (running ''app'' ''containerd://app-id''), None)
   \<and> stop_calls (killContainers (demo_env [''containerd''])
       (demo_containers_pod [''sidecar'', ''app''] [running ''app'' ''containerd://app-id'']) ''evict'') = []
   \<and> stop_calls (killContainers (demo_env [''containerd''])
       (demo_containers_pod [''app'', ''sidecar''] [running ''app'' ''containerd://app-id'']) ''evict'')
     = [(''containerd'', ''app-id'', 0)]"
  by (simp add: killContainers_def demo_env_def demo_containers_pod_def running_def lookup_status_def)

section \<open>Properties of the NodeSLO store\<close>

text \<open>
  Claim C6. \<open>isFeatureDisabled\<close> returns true with an error whenever the NodeSLO is nil,
  its spec is the zero value, the threshold block or its \<open>Enable\<close> field is nil, or the
  feature is neither \<open>BECPUSuppress\<close> nor \<open>BEMemoryEvict\<close>; for one of these two
  features and a threshold block with \<open>Enable\<close> set it returns the negation of the flag
  and no error.
\<close>

theorem isFeatureDisabled_fail_closed:
  "((nodeSLO' = None
     \<or> (\<exists>slo. nodeSLO' = Some slo \<and>
           (Spec slo = NodeSLOSpec_zero
            \<or> ResourceUsedThresholdWithBE (Spec slo) = None
            \<or> (\<exists>threshold. ResourceUsedThresholdWithBE (Spec slo) = Some threshold
                  \<and> Enable threshold = None)))
     \<or> (feature \<noteq> BECPUSuppress \<and> feature \<noteq> BEMemoryEvict))
    \<longrightarrow> fst (isFeatureDisabled nodeSLO' feature) = True
        \<and> snd (isFeatureDisabled nodeSLO' feature) \<noteq> None)
   \<and> ((feature = BECPUSuppress \<or> feature = BEMemoryEvict)
       \<and> nodeSLO' = Some slo' \<and> ResourceUsedThresholdWithBE (Spec slo') = Some threshold'
       \<and> Enable threshold' = Some enable
    \<longrightarrow> isFeatureDisabled nodeSLO' feature = (\<not> enable, None))"
  by (auto simp add: isFeatureDisabled_def NodeSLOSpec_zero_def Let_def split: option.splits)

text \<open>
  The theorem at a NodeSLO with the zero spec, and at one whose threshold block is enabled.
\<close>

theorem isFeatureDisabled_fail_closed_witness:
  "isFeatureDisabled (Some (demo_slo ''1'' NodeSLOSpec_zero)) BECPUSuppress
     = (True, Some (OtherError ''cannot parse feature config for invalid nodeSLO %v''))
   \<and> isFeatureDisabled
       (Some (demo_slo ''1'' (NodeSLOSpec_zero\<lparr>ResourceUsedThresholdWithBE := Some (demo_threshold (Some True))\<rparr>)))
       BEMemoryEvict = (False, None)"
  using isFeatureDisabled_fail_closed
    [of "Some (demo_slo ''1'' NodeSLOSpec_zero)" BECPUSuppress]
    isFeatureDisabled_fail_closed
    [of "Some (demo_slo ''1'' (NodeSLOSpec_zero\<lparr>ResourceUsedThresholdWithBE := Some (demo_threshold (Some True))\<rparr>))"
        BEMemoryEvict
        "demo_slo ''1'' (NodeSLOSpec_zero\<lparr>ResourceUsedThresholdWithBE := Some (demo_threshold (Some True))\<rparr>)"
        "demo_threshold (Some True)" True]
  by (simp add: isFeatureDisabled_def demo_slo_def demo_threshold_def NodeSLOSpec_zero_def)

text \<open>
  Claim C7. \<open>hasSynced\<close> holds exactly when a NodeSLO is stored and the threshold block
  of its spec is not nil.
\<close>

theorem hasSynced_iff:
  "hasSynced r \<longleftrightarrow>
     (\<exists>stored. nodeSLO r = Some stored \<and> ResourceUsedThresholdWithBE (Spec stored) \<noteq> None)"
  by (simp add: hasSynced_def split: option.splits)

text \<open>
  \<open>mergeNodeSLOSpec\<close> on a stored object: each block of the spec becomes the merged block
  if that is not nil, and nothing else of the object changes.
\<close>

lemma mergeNodeSLOSpec_frame:
  assumes "nodeSLO r = Some stored"
  shows "\<exists>merged. nodeSLO (mergeNodeSLOSpec h r (Some new)) = Some merged
           \<and> slo_TypeMeta merged = slo_TypeMeta stored
           \<and> slo_ObjectMeta merged = slo_ObjectMeta stored
           \<and> Status merged = Status stored
           \<and> Spec merged =
               \<lparr>ResourceUsedThresholdWithBE =
                  (case mergeSLOSpecResourceUsedThresholdWithBE h
                          (ResourceUsedThresholdWithBE (DefaultNodeSLOSpecConfig h))
                          (ResourceUsedThresholdWithBE (Spec new)) of
                     None \<Rightarrow> ResourceUsedThresholdWithBE (Spec stored) | Some m \<Rightarrow> Some m),
                spec_ResourceQoSStrategy =
                  (case mergeSLOSpecResourceQoSStrategy h
                          (spec_ResourceQoSStrategy (DefaultNodeSLOSpecConfig h))
                          (spec_ResourceQoSStrategy (Spec new)) of
                     None \<Rightarrow> spec_ResourceQoSStrategy (Spec stored)
                   | Some m \<Rightarrow> Some (mergeNoneResourceQoSIfDisabled h m)),
                spec_CPUBurstStrategy =
                  (case mergeSLOSpecCPUBurstStrategy h
                          (spec_CPUBurstStrategy (DefaultNodeSLOSpecConfig h))
                          (spec_CPUBurstStrategy (Spec new)) of
                     None \<Rightarrow> spec_CPUBurstStrategy (Spec stored) | Some m \<Rightarrow> Some m)\<rparr>"
  using assms by (simp add: mergeNodeSLOSpec_def Let_def split: option.splits)

text \<open>
  Claim C8. With an object stored, \<open>updateNodeSLOSpec\<close> returns, and the object stored
  afterwards has the type metadata, the object metadata and the status of the one stored
  before; its spec is, block by block, the merge of the incoming block with the default,
  or the incoming block where the merge yields nil.
\<close>

theorem updateNodeSLOSpec_frame:
  assumes "nodeSLO r = Some stored"
  shows "\<exists>r' merged. updateNodeSLOSpec h r (Some new) = Inr r'
           \<and> nodeSLO r' = Some merged
           \<and> slo_TypeMeta merged = slo_TypeMeta stored
           \<and> slo_ObjectMeta merged = slo_ObjectMeta stored
           \<and> Status merged = Status stored
           \<and> Spec merged =
               \<lparr>ResourceUsedThresholdWithBE =
                  (case mergeSLOSpecResourceUsedThresholdWithBE h
                          (ResourceUsedThresholdWithBE (DefaultNodeSLOSpecConfig h))
                          (ResourceUsedThresholdWithBE (Spec new)) of
                     None \<Rightarrow> ResourceUsedThresholdWithBE (Spec new) | Some m \<Rightarrow> Some m),
                spec_ResourceQoSStrategy =
                  (case mergeSLOSpecResourceQoSStrategy h
                          (spec_ResourceQoSStrategy (DefaultNodeSLOSpecConfig h))
                          (spec_ResourceQoSStrategy (Spec new)) of
                     None \<Rightarrow> spec_ResourceQoSStrategy (Spec new)
                   | Some m \<Rightarrow> Some (mergeNoneResourceQoSIfDisabled h m)),
                spec_CPUBurstStrategy =
                  (case mergeSLOSpecCPUBurstStrategy h
                          (spec_CPUBurstStrategy (DefaultNodeSLOSpecConfig h))
                          (spec_CPUBurstStrategy (Spec new)) of
                     None \<Rightarrow> spec_CPUBurstStrategy (Spec new) | Some m \<Rightarrow> Some m)\<rparr>"
  using assms
  by (simp add: updateNodeSLOSpec_def mergeNodeSLOSpec_def Let_def split: option.splits)

text \<open>
  The theorem at a stored object of resource version 1 and an update of resource version 2.
\<close>

theorem updateNodeSLOSpec_frame_witness:
  "\<exists>r' merged.
     updateNodeSLOSpec demo_helpers
       ((demo_manager (api_always None) demo_cache)\<lparr>nodeSLO := Some (demo_slo ''1'' NodeSLOSpec_zero)\<rparr>)
       (Some (demo_slo ''2'' (NodeSLOSpec_zero\<lparr>ResourceUsedThresholdWithBE := Some (demo_threshold (Some False))\<rparr>)))
       = Inr r'
     \<and> nodeSLO r' = Some merged
     \<and> om_ResourceVersion (slo_ObjectMeta merged) = ''1''
     \<and> ResourceUsedThresholdWithBE (Spec merged) = Some (demo_threshold (Some False))"
  using updateNodeSLOSpec_frame
    [of "(demo_manager (api_always None) demo_cache)\<lparr>nodeSLO := Some (demo_slo ''1'' NodeSLOSpec_zero)\<rparr>"
        "demo_slo ''1'' NodeSLOSpec_zero" demo_helpers
        "demo_slo ''2'' (NodeSLOSpec_zero\<lparr>ResourceUsedThresholdWithBE := Some (demo_threshold (Some False))\<rparr>)"]
  by (auto simp add: demo_slo_def demo_helpers_def or_default_def NodeSLOSpec_zero_def)

text \<open>
  Claim C9. While no NodeSLO is stored, \<open>updateNodeSLOSpec\<close> panics with a nil
  dereference, whatever it is given. \<open>createNodeSLO\<close> of an object stores one, after which
  an update with an object returns; and with an object stored, an update with an object
  returns.
\<close>

theorem updateNodeSLOSpec_before_create_panics:
  "(nodeSLO r = None \<longrightarrow> updateNodeSLOSpec h r incoming = Inl NilPointerDereference)
   \<and> (\<exists>r1 stored. createNodeSLO h r (Some created) = Inr r1 \<and> nodeSLO r1 = Some stored
         \<and> (\<exists>r2. updateNodeSLOSpec h r1 (Some new) = Inr r2))
   \<and> (nodeSLO r \<noteq> None \<and> incoming \<noteq> None \<longrightarrow> (\<exists>r'. updateNodeSLOSpec h r incoming = Inr r'))"
proof (intro conjI impI)
  assume "nodeSLO r = None"
  then show "updateNodeSLOSpec h r incoming = Inl NilPointerDereference"
    by (simp add: updateNodeSLOSpec_def)
next
  let ?r2 = "r\<lparr>nodeSLO := Some created, nodeSLO := Some (created\<lparr>Spec := Spec created\<rparr>)\<rparr>"
  have "nodeSLO ?r2 = Some (created\<lparr>Spec := Spec created\<rparr>)"
    by simp
  from mergeNodeSLOSpec_frame [OF this, of h created]
  obtain merged where "nodeSLO (mergeNodeSLOSpec h ?r2 (Some created)) = Some merged"
    by blast
  then have "\<exists>r1. createNodeSLO h r (Some created) = Inr r1 \<and> nodeSLO r1 = Some merged"
    by (simp add: createNodeSLO_def Let_def)
  then obtain r1 where r1: "createNodeSLO h r (Some created) = Inr r1" "nodeSLO r1 = Some merged"
    by blast
  then have "\<exists>r2. updateNodeSLOSpec h r1 (Some new) = Inr r2"
    by (simp add: updateNodeSLOSpec_def Let_def)
  with r1 show "\<exists>r1 stored. createNodeSLO h r (Some created) = Inr r1 \<and> nodeSLO r1 = Some stored
         \<and> (\<exists>r2. updateNodeSLOSpec h r1 (Some new) = Inr r2)"
    by blast
next
  assume "nodeSLO r \<noteq> None \<and> incoming \<noteq> None"
  then show "\<exists>r'. updateNodeSLOSpec h r incoming = Inr r'"
    by (auto simp add: updateNodeSLOSpec_def Let_def)
qed

text \<open>
  The theorem at the manager as constructed, with nothing stored, and at one holding an object.
\<close>

theorem updateNodeSLOSpec_before_create_panics_witness:
  "nodeSLO (demo_manager (api_always None) demo_cache) = None
   \<and> updateNodeSLOSpec demo_helpers (demo_manager (api_always None) demo_cache)
        (Some (demo_slo ''2'' NodeSLOSpec_zero)) = Inl NilPointerDereference
   \<and> nodeSLO ((demo_manager (api_always None) demo_cache)\<lparr>nodeSLO := Some (demo_slo ''1'' NodeSLOSpec_zero)\<rparr>)
        \<noteq> None
   \<and> (\<exists>r'. updateNodeSLOSpec demo_helpers
          ((demo_manager (api_always None) demo_cache)\<lparr>nodeSLO := Some (demo_slo ''1'' NodeSLOSpec_zero)\<rparr>)
          (Some (demo_slo ''2'' NodeSLOSpec_zero)) = Inr r')"
  using updateNodeSLOSpec_before_create_panics
    [of "demo_manager (api_always None) demo_cache" demo_helpers "Some (demo_slo ''2'' NodeSLOSpec_zero)"]
    updateNodeSLOSpec_before_create_panics
    [of "(demo_manager (api_always None) demo_cache)\<lparr>nodeSLO := Some (demo_slo ''1'' NodeSLOSpec_zero)\<rparr>"
        demo_helpers "Some (demo_slo ''2'' NodeSLOSpec_zero)"]
  by (simp add: demo_manager_def)

end
